theory Spec2Isabelle
  imports Complex_Main "HOL-Library.Multiset"
begin

section \<open>Air-quality dashboard script: the cleaning and aggregation pipeline\<close>

text \<open>
  The script \<^verbatim>\<open>visualization.py\<close> is one top-level sequence of pandas statements.
  Floating-point cells are modelled as \<open>real option\<close>: \<open>None\<close> is NaN (a missing
  value), \<open>Some x\<close> a finite number, with exact real arithmetic in place of IEEE
  doubles. Every comparison with NaN is false, as in Python.
\<close>

subsection \<open>Floating-point cells\<close>

type_synonym float = "real option"

definition fle :: "float \<Rightarrow> real \<Rightarrow> bool" where
  \<comment> \<open>\<^verbatim>\<open>x <= c\<close> on a Python float\<close>
  "fle x c = (case x of None \<Rightarrow> False | Some v \<Rightarrow> v \<le> c)"

definition flt :: "float \<Rightarrow> float \<Rightarrow> bool" where
  \<comment> \<open>\<^verbatim>\<open>x < q\<close>, elementwise in a pandas comparison\<close>
  "flt x q = (case (x, q) of (Some v, Some w) \<Rightarrow> v < w | _ \<Rightarrow> False)"

subsection \<open>Season (lines 44-48) and AQI category (lines 61-67)\<close>

definition Season_of :: "int \<Rightarrow> string" where
  \<comment> \<open>the lambda of lines 45-47, applied to a month number\<close>
  "Season_of x =
     (if x \<in> set [12, 1, 2] then ''Winter''
      else if x \<in> set [3, 4, 5] then ''Summer''
      else if x \<in> set [6, 7, 8, 9] then ''Monsoon''
      else ''Autumn'')"

definition get_aqi_category :: "float \<Rightarrow> string" where
  "get_aqi_category pm25 =
     (if fle pm25 30 then ''Good''
      else if fle pm25 60 then ''Satisfactory''
      else if fle pm25 90 then ''Moderate''
      else if fle pm25 120 then ''Poor''
      else if fle pm25 250 then ''Very Poor''
      else ''Severe'')"

definition category_order :: "string list" where
  \<comment> \<open>line 117\<close>
  "category_order = [''Good'', ''Satisfactory'', ''Moderate'', ''Poor'', ''Very Poor'', ''Severe'']"

definition severity :: "string \<Rightarrow> nat" where
  \<comment> \<open>the position of a category in \<open>category_order\<close>\<close>
  "severity c = length (takeWhile (\<lambda>k. k \<noteq> c) category_order)"


subsection \<open>Data model: rows and frames\<close>

text \<open>
  One row type serves the three datasets. A text cell is a \<open>string option\<close> (\<open>None\<close>
  is a missing cell). The \<^verbatim>\<open>Datetime\<close> cell is raw text as read from the CSV file until
  \<^verbatim>\<open>pd.to_datetime\<close> turns it into a timestamp or NaT. The pollutant columns are read
  through \<open>conc\<close> by column name. A frame lists its columns with their dtypes, so that a
  column that is absent, or not datetime-like, is visible to the operations that raise on it.
\<close>

datatype error = KeyError string | AttributeError string | ValueError string

record timestamp =
  year :: int
  month :: int
  hour :: int

datatype stamp = Text string | Stamp timestamp | NaT

datatype dtype = Object | Float64 | Int64 | Datetime64

record row =
  City :: "string option"
  Station :: "string option"
  Datetime :: stamp
  Year :: "int option"
  Month :: "int option"
  Season :: "string option"
  Hour :: "int option"
  conc :: "string \<Rightarrow> float"
  AQI_Category :: "string option"

record frame =
  columns :: "(string \<times> dtype) list"
  rows :: "row list"

definition pollutants :: "string list" where
  \<comment> \<open>line 53\<close>
  "pollutants = [''PM2.5'', ''PM10'', ''NO2'', ''NH3'', ''SO2'', ''CO'', ''O3'', ''Benzene'',
     ''Toluene'', ''Xylene'']"

definition column :: "string \<Rightarrow> row list \<Rightarrow> float list" where
  \<comment> \<open>the values of one pollutant column, in row order\<close>
  "column c rs = map (\<lambda>r. conc r c) rs"

subsection \<open>Column statistics of pandas\<close>

fun present :: "float list \<Rightarrow> real list" where
  \<comment> \<open>the non-missing values; \<^verbatim>\<open>mean\<close> and \<^verbatim>\<open>quantile\<close> skip NaN\<close>
  "present [] = []"
| "present (None # vs) = present vs"
| "present (Some x # vs) = x # present vs"

definition mean :: "float list \<Rightarrow> float" where
  \<comment> \<open>\<^verbatim>\<open>Series.mean()\<close>: NaN when no value is present\<close>
  "mean vs = (let xs = present vs in
     if xs = [] then None else Some (sum_list xs / real (length xs)))"

definition quantile99 :: "float list \<Rightarrow> float" where
  \<comment> \<open>\<^verbatim>\<open>Series.quantile(0.99)\<close>, linear interpolation at position \<open>0.99 * (n - 1)\<close> of the
      sorted present values; NaN when no value is present\<close>
  "quantile99 vs = (let xs = sort (present vs); n = length xs in
     if n = 0 then None
     else let pos = 99 * (n - 1); lo = pos div 100; hi = min (lo + 1) (n - 1) in
       Some (xs ! lo + (real (pos mod 100) / 100) * (xs ! hi - xs ! lo)))"

subsection \<open>Cleaner: imputation (line 54) and outlier trimming (lines 56-58)\<close>

definition fillna :: "float \<Rightarrow> float \<Rightarrow> float" where
  "fillna v m = (case v of None \<Rightarrow> m | Some x \<Rightarrow> Some x)"

definition fillna_mean :: "row list \<Rightarrow> row list" where
  \<comment> \<open>\<^verbatim>\<open>city_day[pollutants] = city_day[pollutants].fillna(city_day[pollutants].mean())\<close>\<close>
  "fillna_mean rs =
     map (\<lambda>r. r\<lparr>conc := (\<lambda>c. if c \<in> set pollutants
                               then fillna (conc r c) (mean (column c rs)) else conc r c)\<rparr>) rs"

definition trim_col :: "string \<Rightarrow> row list \<Rightarrow> row list" where
  \<comment> \<open>\<^verbatim>\<open>city_day = city_day[city_day[col] < city_day[col].quantile(0.99)]\<close>\<close>
  "trim_col col rs = filter (\<lambda>r. flt (conc r col) (quantile99 (column col rs))) rs"

fun trim_loop :: "string list \<Rightarrow> row list \<Rightarrow> row list" where
  \<comment> \<open>the \<^verbatim>\<open>for col in ...\<close> loop over the columns that are present\<close>
  "trim_loop [] rs = rs"
| "trim_loop (col # cols) rs = trim_loop cols (trim_col col rs)"

definition cleaner :: "row list \<Rightarrow> row list" where
  \<comment> \<open>lines 54-58 on a daily dataset that has every pollutant column\<close>
  "cleaner rs = trim_loop pollutants (fillna_mean rs)"

definition trim_col_exceeds :: "string \<Rightarrow> row list \<Rightarrow> row list" where
  \<comment> \<open>the trimming step in the specification's words: a row goes exactly when its value
      exceeds the threshold\<close>
  "trim_col_exceeds col rs =
     filter (\<lambda>r. \<not> (case (conc r col, quantile99 (column col rs)) of
                       (Some v, Some q) \<Rightarrow> v > q | _ \<Rightarrow> False)) rs"

subsection \<open>Categorizer (line 69) and category distribution (lines 115-118)\<close>

definition assign_AQI_Category :: "row list \<Rightarrow> row list" where
  \<comment> \<open>\<^verbatim>\<open>city_day['AQI_Category'] = city_day['PM2.5'].apply(get_aqi_category)\<close>\<close>
  "assign_AQI_Category rs =
     map (\<lambda>r. r\<lparr>AQI_Category := Some (get_aqi_category (conc r ''PM2.5''))\<rparr>) rs"

fun present_text :: "string option list \<Rightarrow> string list" where
  "present_text [] = []"
| "present_text (None # vs) = present_text vs"
| "present_text (Some x # vs) = x # present_text vs"

definition value_counts :: "string option list \<Rightarrow> (string \<times> nat) list" where
  \<comment> \<open>\<^verbatim>\<open>Series.value_counts()\<close>: one entry per distinct present value with its number of
      occurrences, missing cells left out. pandas orders the entries by count; the order is
      not modelled, \<open>reindex\<close> below looks entries up by key.\<close>
  "value_counts vs = (let xs = present_text vs in
     map (\<lambda>v. (v, count_list xs v)) (remdups xs))"

definition reindex :: "(string \<times> nat) list \<Rightarrow> string list \<Rightarrow> nat \<Rightarrow> (string \<times> nat) list" where
  \<comment> \<open>\<^verbatim>\<open>Series.reindex(keys, fill_value=fill)\<close>\<close>
  "reindex s keys fill = map (\<lambda>k. (k, case map_of s k of None \<Rightarrow> fill | Some n \<Rightarrow> n)) keys"

definition aqi_counts :: "row list \<Rightarrow> (string \<times> nat) list" where
  "aqi_counts rs = reindex (value_counts (map AQI_Category rs)) category_order 0"

subsection \<open>Example datasets\<close>

definition mk_row :: "string \<Rightarrow> float \<Rightarrow> row" where
  \<comment> \<open>a raw daily row whose pollutant columns all hold the same value\<close>
  "mk_row city v = \<lparr>City = Some city, Station = None, Datetime = Text ''2020-01-15'',
     Year = None, Month = None, Season = None, Hour = None, conc = (\<lambda>c. v),
     AQI_Category = None\<rparr>"

definition one_row :: "row list" where
  "one_row = [mk_row ''Delhi'' (Some 5)]"

definition three_rows :: "row list" where
  "three_rows = [mk_row ''Delhi'' (Some 1), mk_row ''Delhi'' (Some 2), mk_row ''Delhi'' (Some 3)]"

definition all_missing :: "row list" where
  "all_missing = [mk_row ''Delhi'' None]"

definition twelve_rows :: "row list" where
  "twelve_rows = map (\<lambda>v. mk_row ''Delhi'' v)
     [Some 1, Some 2, Some 3, Some 4, None, Some 6, Some 7, Some 8, Some 9, Some 10, Some 11,
      Some 13]"

definition tied_rows :: "row list" where
  "tied_rows = map (\<lambda>v. mk_row ''Delhi'' v) [Some 5, Some 5, Some 5, Some 1]"

definition sparse_rows :: "row list" where
  "sparse_rows = map (\<lambda>v. mk_row ''Delhi'' v) [Some 7, None, None, None]"

subsection \<open>Python strings: \<^verbatim>\<open>str.strip\<close> and \<^verbatim>\<open>str.title\<close>\<close>

text \<open>
  Text is modelled as ASCII: the whitespace characters are those of \<^verbatim>\<open>str.isspace\<close> below
  code point 128 and the cased characters are the 52 Latin letters. Characters outside ASCII
  are taken as uncased and not whitespace.
\<close>

definition isspace :: "char \<Rightarrow> bool" where
  "isspace c = (c \<in> set [CHR 0x09, CHR 0x0A, CHR 0x0B, CHR 0x0C, CHR 0x0D, CHR 0x1C, CHR 0x1D,
     CHR 0x1E, CHR 0x1F, CHR '' ''])"

definition lowers :: string where
  "lowers = ''abcdefghijklmnopqrstuvwxyz''"

definition uppers :: string where
  "uppers = ''ABCDEFGHIJKLMNOPQRSTUVWXYZ''"

definition islower :: "char \<Rightarrow> bool" where
  "islower c = (c \<in> set lowers)"

definition isupper :: "char \<Rightarrow> bool" where
  "isupper c = (c \<in> set uppers)"

definition cased :: "char \<Rightarrow> bool" where
  "cased c = (islower c \<or> isupper c)"

definition to_upper :: "char \<Rightarrow> char" where
  "to_upper c = (case map_of (zip lowers uppers) c of None \<Rightarrow> c | Some u \<Rightarrow> u)"

definition to_lower :: "char \<Rightarrow> char" where
  "to_lower c = (case map_of (zip uppers lowers) c of None \<Rightarrow> c | Some l \<Rightarrow> l)"

definition strip :: "string \<Rightarrow> string" where
  "strip s = rev (dropWhile isspace (rev (dropWhile isspace s)))"

fun title_from :: "bool \<Rightarrow> string \<Rightarrow> string" where
  \<comment> \<open>the loop of \<^verbatim>\<open>str.title\<close>; the flag says whether the previous character is cased\<close>
  "title_from prev [] = []"
| "title_from prev (c # cs) = (if prev then to_lower c else to_upper c) # title_from (cased c) cs"

definition title :: "string \<Rightarrow> string" where
  "title s = title_from False s"

fun titlecased_from :: "bool \<Rightarrow> string \<Rightarrow> bool" where
  \<comment> \<open>an upper-case letter only after an uncased character or at the start, a lower-case
      letter only after a cased one\<close>
  "titlecased_from prev [] = True"
| "titlecased_from prev (c # cs) =
     ((if isupper c then \<not> prev else if islower c then prev else True)
      \<and> titlecased_from (cased c) cs)"

definition titlecased :: "string \<Rightarrow> bool" where
  "titlecased s = titlecased_from False s"

definition trimmed :: "string \<Rightarrow> bool" where
  \<comment> \<open>no leading and no trailing whitespace\<close>
  "trimmed s = (s = [] \<or> (\<not> isspace (hd s) \<and> \<not> isspace (last s)))"

definition astype_str :: "string option \<Rightarrow> string" where
  \<comment> \<open>\<^verbatim>\<open>astype(str)\<close> on a text cell; a missing cell prints as \<^verbatim>\<open>nan\<close>\<close>
  "astype_str v = (case v of None \<Rightarrow> ''nan'' | Some s \<Rightarrow> s)"

subsection \<open>Loader (lines 19-31) and frames\<close>

definition DataFrame :: frame where
  \<comment> \<open>\<^verbatim>\<open>pd.DataFrame()\<close>: no column, no row\<close>
  "DataFrame = \<lparr>columns = [], rows = []\<rparr>"

definition frame_empty :: "frame \<Rightarrow> bool" where
  \<comment> \<open>\<^verbatim>\<open>df.empty\<close>: some axis has length 0\<close>
  "frame_empty df = (columns df = [] \<or> rows df = [])"

definition has_column :: "frame \<Rightarrow> string \<Rightarrow> bool" where
  \<comment> \<open>\<^verbatim>\<open>c in df.columns\<close>\<close>
  "has_column df c = (c \<in> set (map fst (columns df)))"

definition set_column :: "string \<Rightarrow> dtype \<Rightarrow> (string \<times> dtype) list \<Rightarrow> (string \<times> dtype) list" where
  \<comment> \<open>the column index after \<^verbatim>\<open>df[c] = ...\<close>: an existing column is replaced in place, a new
      one is appended\<close>
  "set_column c t cols =
     (if c \<in> set (map fst cols) then map (\<lambda>(n, d). if n = c then (n, t) else (n, d)) cols
      else cols @ [(c, t)])"

definition safe_read :: "(string \<Rightarrow> frame option) \<Rightarrow> string \<Rightarrow> frame \<times> string list" where
  \<comment> \<open>the file system gives the frame \<^verbatim>\<open>pd.read_csv\<close> reads, or nothing for a file that does
      not exist; the second component is what is printed\<close>
  "safe_read fs file =
     (case fs file of Some df \<Rightarrow> (df, []) | None \<Rightarrow> (DataFrame, [''File not found: '' @ file]))"

subsection \<open>Normalizer (lines 36-51)\<close>

definition normalize_City :: "frame \<Rightarrow> frame" where
  \<comment> \<open>the body of the loop of lines 36-38 for one frame\<close>
  "normalize_City df =
     (if \<not> frame_empty df \<and> has_column df ''City''
      then df\<lparr>rows := map (\<lambda>r. r\<lparr>City := Some (title (strip (astype_str (City r))))\<rparr>) (rows df)\<rparr>
      else df)"

definition to_datetime :: "(string \<Rightarrow> timestamp option) \<Rightarrow> stamp \<Rightarrow> stamp" where
  \<comment> \<open>one cell of \<^verbatim>\<open>pd.to_datetime(column, errors='coerce')\<close>; \<open>parse\<close> is the date parser of
      pandas, a parameter of the model\<close>
  "to_datetime parse c =
     (case c of
        Text s \<Rightarrow> (case parse s of None \<Rightarrow> NaT | Some t \<Rightarrow> Stamp t)
      | Stamp t \<Rightarrow> Stamp t
      | NaT \<Rightarrow> NaT)"

definition assign_Datetime :: "(string \<Rightarrow> timestamp option) \<Rightarrow> frame \<Rightarrow> frame" where
  \<comment> \<open>\<^verbatim>\<open>df['Datetime'] = pd.to_datetime(df.get('Datetime'), errors='coerce')\<close>. With no such
      column \<^verbatim>\<open>df.get\<close> gives \<^verbatim>\<open>None\<close>, \<^verbatim>\<open>pd.to_datetime(None)\<close> is \<^verbatim>\<open>None\<close>, and the assignment
      makes a column of dtype object that holds \<^verbatim>\<open>None\<close> in every row.\<close>
  "assign_Datetime parse df =
     (if has_column df ''Datetime''
      then df\<lparr>columns := set_column ''Datetime'' Datetime64 (columns df),
              rows := map (\<lambda>r. r\<lparr>Datetime := to_datetime parse (Datetime r)\<rparr>) (rows df)\<rparr>
      else df\<lparr>columns := set_column ''Datetime'' Object (columns df),
              rows := map (\<lambda>r. r\<lparr>Datetime := NaT\<rparr>) (rows df)\<rparr>)"

definition dropna_Datetime :: "frame \<Rightarrow> frame" where
  \<comment> \<open>\<^verbatim>\<open>city_day.dropna(subset=['Datetime'], inplace=True)\<close>\<close>
  "dropna_Datetime df = df\<lparr>rows := filter (\<lambda>r. Datetime r \<noteq> NaT) (rows df)\<rparr>"

definition dt_accessor :: "frame \<Rightarrow> error + unit" where
  \<comment> \<open>\<^verbatim>\<open>df['Datetime'].dt\<close>: only a datetime-like column has the accessor\<close>
  "dt_accessor df =
     (case map_of (columns df) ''Datetime'' of
        None \<Rightarrow> Inl (KeyError ''Datetime'')
      | Some t \<Rightarrow>
          if t = Datetime64 then Inr ()
          else Inl (AttributeError ''Can only use .dt accessor with datetimelike values''))"

definition year_of :: "stamp \<Rightarrow> int option" where
  "year_of d = (case d of Stamp t \<Rightarrow> Some (year t) | _ \<Rightarrow> None)"

definition month_of :: "stamp \<Rightarrow> int option" where
  "month_of d = (case d of Stamp t \<Rightarrow> Some (month t) | _ \<Rightarrow> None)"

definition hour_of :: "stamp \<Rightarrow> int option" where
  "hour_of d = (case d of Stamp t \<Rightarrow> Some (hour t) | _ \<Rightarrow> None)"

definition Season_cell :: "int option \<Rightarrow> string" where
  \<comment> \<open>the lambda applied to a cell of the Month column; a missing month is in none of the
      three lists\<close>
  "Season_cell m = (case m of None \<Rightarrow> ''Autumn'' | Some x \<Rightarrow> Season_of x)"

definition daily_features :: "frame \<Rightarrow> error + frame" where
  \<comment> \<open>lines 42-48\<close>
  "daily_features df =
     (case dt_accessor df of
        Inl e \<Rightarrow> Inl e
      | Inr _ \<Rightarrow>
          Inr (df\<lparr>columns := set_column ''Season'' Object (set_column ''Month'' Int64
                     (set_column ''Year'' Int64 (columns df))),
                  rows := map (\<lambda>r. r\<lparr>Year := year_of (Datetime r), Month := month_of (Datetime r),
                                      Season := Some (Season_cell (month_of (Datetime r)))\<rparr>)
                            (rows df)\<rparr>))"

definition daily_prep :: "(string \<Rightarrow> timestamp option) \<Rightarrow> frame \<Rightarrow> error + frame" where
  \<comment> \<open>lines 40-48 on \<^verbatim>\<open>city_day\<close>\<close>
  "daily_prep parse df = daily_features (dropna_Datetime (assign_Datetime parse df))"

definition derive_Hour :: "row list \<Rightarrow> row list" where
  "derive_Hour rs = map (\<lambda>r. r\<lparr>Hour := hour_of (Datetime r)\<rparr>) rs"

definition hourly_prep :: "(string \<Rightarrow> timestamp option) \<Rightarrow> frame \<Rightarrow> error + frame" where
  \<comment> \<open>lines 50-51 on \<^verbatim>\<open>city_hour\<close>; no row is dropped\<close>
  "hourly_prep parse df =
     (let df1 = assign_Datetime parse df in
      case dt_accessor df1 of
        Inl e \<Rightarrow> Inl e
      | Inr _ \<Rightarrow> Inr (df1\<lparr>columns := set_column ''Hour'' Int64 (columns df1),
                          rows := derive_Hour (rows df1)\<rparr>))"

subsection \<open>Cleaner and Categorizer on frames (lines 54-69)\<close>

definition impute :: "frame \<Rightarrow> error + frame" where
  \<comment> \<open>line 54; selecting a list of columns raises on the first one the frame lacks\<close>
  "impute df =
     (case filter (\<lambda>p. \<not> has_column df p) pollutants of
        [] \<Rightarrow> Inr (df\<lparr>rows := fillna_mean (rows df)\<rparr>)
      | p # _ \<Rightarrow> Inl (KeyError p))"

definition trim :: "frame \<Rightarrow> frame" where
  \<comment> \<open>lines 56-58, with the guard \<^verbatim>\<open>if col in city_day.columns\<close>\<close>
  "trim df = df\<lparr>rows := trim_loop (filter (has_column df) pollutants) (rows df)\<rparr>"

definition categorize :: "frame \<Rightarrow> error + frame" where
  \<comment> \<open>line 69\<close>
  "categorize df =
     (if has_column df ''PM2.5''
      then Inr (df\<lparr>columns := set_column ''AQI_Category'' Object (columns df),
                    rows := assign_AQI_Category (rows df)\<rparr>)
      else Inl (KeyError ''PM2.5''))"

subsection \<open>Statistics and aggregates (lines 85-88, 147-148, 186-188)\<close>

definition date_range :: "frame \<Rightarrow> error + int \<times> int" where
  \<comment> \<open>line 88: the years of the earliest and the latest timestamp; on a frame without rows
      \<^verbatim>\<open>min()\<close> is NaT, which has no \<^verbatim>\<open>strftime\<close>\<close>
  "date_range df =
     (case concat (map (\<lambda>r. case year_of (Datetime r) of None \<Rightarrow> [] | Some y \<Rightarrow> [y]) (rows df)) of
        [] \<Rightarrow> Inl (ValueError ''NaTType does not support strftime'')
      | y # ys \<Rightarrow> Inr (fold min ys y, fold max ys y))"

definition total_cities :: "frame \<Rightarrow> error + nat" where
  \<comment> \<open>line 87: \<^verbatim>\<open>city_day['City'].nunique()\<close>\<close>
  "total_cities df =
     (if has_column df ''City'' then Inr (length (remdups (present_text (map City (rows df)))))
      else Inl (KeyError ''City''))"

fun present_keys :: "int option list \<Rightarrow> int list" where
  "present_keys [] = []"
| "present_keys (None # ks) = present_keys ks"
| "present_keys (Some k # ks) = k # present_keys ks"

definition groupby_mean :: "(row \<Rightarrow> int option) \<Rightarrow> string \<Rightarrow> row list \<Rightarrow> (int \<times> float) list" where
  \<comment> \<open>\<^verbatim>\<open>df.groupby(key)[c].mean()\<close>: one group per present key, in key order; a row whose
      key is missing is in no group\<close>
  "groupby_mean key c rs =
     map (\<lambda>k. (k, mean (column c (filter (\<lambda>r. key r = Some k) rs))))
       (sort (remdups (present_keys (map key rs))))"

definition hourly_avg :: "frame \<Rightarrow> error + (int \<times> float) list" where
  \<comment> \<open>lines 147-148\<close>
  "hourly_avg df =
     (if \<not> has_column df ''City'' then Inl (KeyError ''City'')
      else if \<not> has_column df ''Hour'' then Inl (KeyError ''Hour'')
      else if \<not> has_column df ''PM2.5'' then Inl (KeyError ''Column not found: PM2.5'')
      else Inr (groupby_mean Hour ''PM2.5'' (filter (\<lambda>r. City r = Some ''Delhi'') (rows df))))"

definition stations_section :: "frame \<Rightarrow> error + bool" where
  \<comment> \<open>lines 186-201: whether the image \<^verbatim>\<open>stations\<close> is made; the chart itself is not modelled\<close>
  "stations_section df =
     (if frame_empty df then Inr False
      else if \<not> has_column df ''City'' then Inl (KeyError ''City'')
      else if \<not> has_column df ''Station'' then Inl (KeyError ''Station'')
      else if \<not> has_column df ''PM2.5'' then Inl (KeyError ''Column not found: PM2.5'')
      else Inr True)"

subsection \<open>The run\<close>

record report =
  warnings :: "string list"
  years :: "int \<times> int"
  cities :: nat
  categories :: "(string \<times> nat) list"
  hourly :: "(int \<times> float) list"
  stations :: bool

definition bind :: "error + 'a \<Rightarrow> ('a \<Rightarrow> error + 'b) \<Rightarrow> error + 'b" where
  "bind m f = (case m of Inl e \<Rightarrow> Inl e | Inr x \<Rightarrow> f x)"

definition run :: "(string \<Rightarrow> timestamp option) \<Rightarrow> (string \<Rightarrow> frame option) \<Rightarrow> error + report" where
  \<comment> \<open>the statements of the script that read or change the three frames, in source order;
      chart drawing and the HTML template are left out, and so are the group-bys of lines
      94, 138, 165 and 207, which read only columns that the earlier statements have already
      read\<close>
  "run parse fs =
     (let (d0, w1) = safe_read fs ''city_day.csv'';
          (h0, w2) = safe_read fs ''city_hour.csv'';
          (s0, w3) = safe_read fs ''station_day.csv'';
          d1 = normalize_City d0; h1 = normalize_City h0; s1 = normalize_City s0
      in bind (daily_prep parse d1) (\<lambda>d2.
         bind (hourly_prep parse h1) (\<lambda>h2.
         bind (impute d2) (\<lambda>d3.
         bind (categorize (trim d3)) (\<lambda>d4.
         bind (total_cities d4) (\<lambda>n.
         bind (date_range d4) (\<lambda>ys.
         bind (hourly_avg h2) (\<lambda>hs.
         bind (stations_section s1) (\<lambda>st.
           Inr \<lparr>warnings = w1 @ w2 @ w3, years = ys, cities = n,
                categories = aqi_counts (rows d4), hourly = hs, stations = st\<rparr>)))))))))"

subsection \<open>Example inputs\<close>

definition iso_parse :: "string \<Rightarrow> timestamp option" where
  \<comment> \<open>a date parser for the examples: it knows two timestamps\<close>
  "iso_parse s =
     (if s = ''2020-01-15'' then Some \<lparr>year = 2020, month = 1, hour = 0\<rparr>
      else if s = ''2020-01-15 07:00:00'' then Some \<lparr>year = 2020, month = 1, hour = 7\<rparr>
      else None)"

definition daily_columns :: "(string \<times> dtype) list" where
  "daily_columns = [(''City'', Object), (''Datetime'', Object)] @ map (\<lambda>p. (p, Float64)) pollutants"

definition daily_twelve :: frame where
  \<comment> \<open>a daily source of twelve rows\<close>
  "daily_twelve = \<lparr>columns = daily_columns, rows = twelve_rows\<rparr>"


definition daily_only :: "string \<Rightarrow> frame option" where
  \<comment> \<open>only the daily source exists\<close>
  "daily_only file = (if file = ''city_day.csv'' then Some daily_twelve else None)"

definition daily_no_Datetime :: frame where
  \<comment> \<open>a daily source whose timestamp column has another name\<close>
  "daily_no_Datetime =
     \<lparr>columns = [(''City'', Object), (''Date'', Object)] @ map (\<lambda>p. (p, Float64)) pollutants,
      rows = [mk_row ''Delhi'' (Some 40)]\<rparr>"

definition station_file :: frame where
  "station_file =
     \<lparr>columns = [(''City'', Object), (''Station'', Object), (''PM2.5'', Float64)],
      rows = [(mk_row '' new  delhi'' (Some 40))\<lparr>Station := Some '' anand vihar ''\<rparr>]\<rparr>"

definition hourly_file :: frame where
  "hourly_file =
     \<lparr>columns = [(''City'', Object), (''Datetime'', Object), (''PM2.5'', Float64)],
      rows = [(mk_row ''Delhi'' (Some 10))\<lparr>Datetime := Text ''2020-01-15 07:00:00''\<rparr>,
              (mk_row ''Delhi'' (Some 500))\<lparr>Datetime := Text ''not a date''\<rparr>,
              (mk_row ''Delhi'' (Some 30))\<lparr>Datetime := Text ''2020-01-15 07:00:00''\<rparr>]\<rparr>"

definition all_files :: "string \<Rightarrow> frame option" where
  \<comment> \<open>the three sources exist\<close>
  "all_files file =
     (if file = ''city_day.csv'' then Some daily_twelve
      else if file = ''city_hour.csv'' then Some hourly_file
      else if file = ''station_day.csv'' then Some station_file
      else None)"

section \<open>Properties\<close>

subsection \<open>Season\<close>

text \<open>
  Claim C6. The season function is defined on every month, gives one of the four season
  names, and follows the table: 12, 1, 2 are Winter; 3, 4, 5 Summer; 6 to 9 Monsoon; every
  other month (10 and 11 among 1..12) Autumn.
\<close>

theorem Season_table:
  "map Season_of [1, 2, 3, 4, 5, 6, 7, 8, 9, 10, 11, 12] =
     [''Winter'', ''Winter'', ''Summer'', ''Summer'', ''Summer'', ''Monsoon'', ''Monsoon'',
      ''Monsoon'', ''Monsoon'', ''Autumn'', ''Autumn'', ''Winter'']
   \<and> Season_of m \<in> {''Winter'', ''Summer'', ''Monsoon'', ''Autumn''}
   \<and> (m \<notin> {12, 1, 2, 3, 4, 5, 6, 7, 8, 9} \<longrightarrow> Season_of m = ''Autumn'')"
  by (simp add: Season_of_def)

theorem Season_table_witness:
  "(10::int) \<notin> {12, 1, 2, 3, 4, 5, 6, 7, 8, 9} \<and> Season_of 10 = ''Autumn''
   \<and> Season_of 10 \<in> {''Winter'', ''Summer'', ''Monsoon'', ''Autumn''}"
  using Season_table [of 10] by simp

subsection \<open>AQI category\<close>

lemma severity_values:
  "severity ''Good'' = 0" "severity ''Satisfactory'' = 1" "severity ''Moderate'' = 2"
  "severity ''Poor'' = 3" "severity ''Very Poor'' = 4" "severity ''Severe'' = 5"
  by (simp_all add: severity_def category_order_def)

text \<open>
  Claim C2. On a real input \<open>v\<close> the category is Good for \<open>v \<le> 30\<close>, Satisfactory for
  \<open>30 < v \<le> 60\<close>, Moderate for \<open>60 < v \<le> 90\<close>, Poor for \<open>90 < v \<le> 120\<close>, Very Poor for
  \<open>120 < v \<le> 250\<close> and Severe above 250, the upper edge of each bin included; the severity
  (position in the category order) never decreases as \<open>v\<close> grows, and negative values are
  Good.
\<close>

theorem get_aqi_category_bins:
  fixes v w :: real
  shows "(v \<le> 30 \<longrightarrow> get_aqi_category (Some v) = ''Good'')
       \<and> (30 < v \<and> v \<le> 60 \<longrightarrow> get_aqi_category (Some v) = ''Satisfactory'')
       \<and> (60 < v \<and> v \<le> 90 \<longrightarrow> get_aqi_category (Some v) = ''Moderate'')
       \<and> (90 < v \<and> v \<le> 120 \<longrightarrow> get_aqi_category (Some v) = ''Poor'')
       \<and> (120 < v \<and> v \<le> 250 \<longrightarrow> get_aqi_category (Some v) = ''Very Poor'')
       \<and> (250 < v \<longrightarrow> get_aqi_category (Some v) = ''Severe'')
       \<and> (v \<le> w \<longrightarrow>
            severity (get_aqi_category (Some v)) \<le> severity (get_aqi_category (Some w)))
       \<and> (v < 0 \<longrightarrow> get_aqi_category (Some v) = ''Good'')"
  by (simp add: get_aqi_category_def fle_def severity_values)

theorem get_aqi_category_bins_witness:
  "get_aqi_category (Some 30) = ''Good''
   \<and> get_aqi_category (Some 60) = ''Satisfactory''
   \<and> get_aqi_category (Some 90) = ''Moderate''
   \<and> get_aqi_category (Some 120) = ''Poor''
   \<and> get_aqi_category (Some 250) = ''Very Poor''
   \<and> get_aqi_category (Some (25001 / 100)) = ''Severe''
   \<and> get_aqi_category (Some (- 5)) = ''Good''
   \<and> severity (get_aqi_category (Some 30)) \<le> severity (get_aqi_category (Some 250))"
  using get_aqi_category_bins [of 30 250] get_aqi_category_bins [of 60 60]
    get_aqi_category_bins [of 90 90] get_aqi_category_bins [of 120 120]
    get_aqi_category_bins [of 250 250] get_aqi_category_bins [of "25001 / 100" 300]
    get_aqi_category_bins [of "- 5" 0]
  by (simp add: severity_values)

subsection \<open>Category distribution\<close>

lemma get_aqi_category_in_order: "get_aqi_category v \<in> set category_order"
  by (simp add: get_aqi_category_def category_order_def)

lemma map_of_value_counts:
  "map_of (value_counts vs) k =
     (if k \<in> set (present_text vs) then Some (count_list (present_text vs) k) else None)"
  unfolding value_counts_def Let_def
  by (simp add: map_of_map_restrict restrict_map_def)

lemma reindex_value_counts:
  "reindex (value_counts vs) keys 0 = map (\<lambda>k. (k, count_list (present_text vs) k)) keys"
  unfolding reindex_def
  by (simp add: map_of_value_counts count_list_0_iff)

lemma sum_count_list_keys:
  "distinct ks \<Longrightarrow> set xs \<subseteq> set ks \<Longrightarrow> (\<Sum>k\<leftarrow>ks. count_list xs k) = length xs"
  by (simp add: sum_list_distinct_conv_sum_set sum_count_set)

lemma present_text_Some: "present_text (map Some xs) = xs"
  by (induction xs) simp_all

lemma distinct_category_order: "distinct category_order"
  by (simp add: category_order_def)

text \<open>
  Claim C7. The category distribution has exactly the six categories of the fixed order as
  its keys, each with the number of rows of that category (zero for a category no row has),
  and the six counts add up to the number of rows of the dataset.
\<close>

theorem aqi_counts_total:
  "aqi_counts (assign_AQI_Category rs) =
     map (\<lambda>k. (k, count_list (map (\<lambda>r. get_aqi_category (conc r ''PM2.5'')) rs) k))
       category_order
   \<and> map fst (aqi_counts (assign_AQI_Category rs)) = category_order
   \<and> length (aqi_counts (assign_AQI_Category rs)) = 6
   \<and> sum_list (map snd (aqi_counts (assign_AQI_Category rs))) = length rs"
proof -
  let ?cats = "map (\<lambda>r. get_aqi_category (conc r ''PM2.5'')) rs"
  have col: "map AQI_Category (assign_AQI_Category rs) = map Some ?cats"
    by (simp add: assign_AQI_Category_def comp_def)
  have counts: "aqi_counts (assign_AQI_Category rs) =
      map (\<lambda>k. (k, count_list ?cats k)) category_order"
    unfolding aqi_counts_def col reindex_value_counts present_text_Some ..
  have sub: "set ?cats \<subseteq> set category_order"
    using get_aqi_category_in_order by auto
  have "(\<Sum>k\<leftarrow>category_order. count_list ?cats k) = length ?cats"
    using distinct_category_order sub by (rule sum_count_list_keys)
  then have total: "sum_list (map snd (aqi_counts (assign_AQI_Category rs))) = length rs"
    by (simp add: counts comp_def)
  have keys: "map fst (aqi_counts (assign_AQI_Category rs)) = category_order"
    by (simp add: counts comp_def)
  have "length (aqi_counts (assign_AQI_Category rs)) = 6"
    by (simp add: counts category_order_def)
  with counts keys total show ?thesis by simp
qed

subsection \<open>Outlier trimming\<close>

lemma flt_Some: "flt v (Some q) = (\<exists>x. v = Some x \<and> x < q)"
  by (cases v) (simp_all add: flt_def)

lemma flt_iff: "flt v q \<longleftrightarrow> (\<exists>x y. v = Some x \<and> q = Some y \<and> x < y)"
  by (cases v; cases q) (simp_all add: flt_def)

lemma flt_None: "flt v None = False"
  by (cases v) (simp_all add: flt_def)

lemma present_set: "set (present vs) = {x. Some x \<in> set vs}"
  by (induction vs rule: present.induct) auto

lemma present_no_None: "None \<notin> set vs \<Longrightarrow> map Some (present vs) = vs"
  by (induction vs rule: present.induct) auto

lemma length_present_le: "length (present vs) \<le> length vs"
  by (induction vs rule: present.induct) auto

lemma kept_count:
  "length (filter (\<lambda>r. flt (conc r c) (Some q)) rs) =
   length (filter (\<lambda>x. x < q) (present (column c rs)))"
proof (induction rs)
  case Nil
  then show ?case by (simp add: column_def)
next
  case (Cons r rs)
  then show ?case
    by (cases "conc r c") (simp_all add: column_def flt_def)
qed

lemma length_filter_sort:
  fixes xs :: "real list"
  shows "length (filter P (sort xs)) = length (filter P xs)"
proof -
  have "mset (filter P (sort xs)) = mset (filter P xs)"
    by simp
  then show ?thesis by (metis size_mset)
qed

lemma sort_Nil_iff [simp]: "sort xs = [] \<longleftrightarrow> xs = []"
  by (metis length_sort length_0_conv)

lemma quantile99_None: "quantile99 vs = None \<longleftrightarrow> present vs = []"
  by (simp add: quantile99_def Let_def)

lemma quantile99_bounds:
  assumes "quantile99 vs = Some q"
  defines "xs \<equiv> sort (present vs)"
  shows "xs ! ((99 * (length xs - 1)) div 100) \<le> q" and "q \<le> last xs" and "xs \<noteq> []"
proof -
  let ?n = "length xs"
  let ?lo = "(99 * (?n - 1)) div 100"
  let ?hi = "min (?lo + 1) (?n - 1)"
  let ?t = "real ((99 * (?n - 1)) mod 100) / 100"
  from assms(1) have n: "?n \<noteq> 0"
    by (auto simp: quantile99_def Let_def xs_def split: if_splits)
  then show "xs \<noteq> []" by simp
  from assms(1) n have q: "q = xs ! ?lo + ?t * (xs ! ?hi - xs ! ?lo)"
    by (simp add: quantile99_def Let_def xs_def)
  have srt: "sorted xs" by (simp add: xs_def)
  have npos: "0 < ?n" using n by simp
  have lohi: "?lo \<le> ?hi" "?hi < ?n" using npos by (simp_all add: min_def) arith+
  then have ab: "xs ! ?lo \<le> xs ! ?hi" using srt by (simp add: sorted_nth_mono)
  have t: "0 \<le> ?t" "?t \<le> 1" by simp_all
  have "0 \<le> ?t * (xs ! ?hi - xs ! ?lo)" using t ab by simp
  then show "xs ! ?lo \<le> q" using q by simp
  have "?t * (xs ! ?hi - xs ! ?lo) \<le> 1 * (xs ! ?hi - xs ! ?lo)"
    using t ab by (intro mult_right_mono) simp_all
  then have "q \<le> xs ! ?hi" using q by simp
  also have "xs ! ?hi \<le> xs ! (?n - 1)" using srt lohi n by (intro sorted_nth_mono) auto
  also have "xs ! (?n - 1) = last xs" using n by (simp add: last_conv_nth)
  finally show "q \<le> last xs" .
qed

lemma trim_col_shrinks:
  assumes "rs \<noteq> []"
  shows "length (trim_col c rs) < length rs"
proof (cases "quantile99 (column c rs)")
  case None
  then show ?thesis using assms by (simp add: trim_col_def flt_None)
next
  case (Some q)
  let ?xs = "sort (present (column c rs))"
  from quantile99_bounds[OF Some] have le: "q \<le> last ?xs" and ne: "?xs \<noteq> []" by simp_all
  have "last ?xs \<in> set ?xs" using ne by (rule last_in_set)
  then have "last ?xs \<in> set (present (column c rs))" by simp
  then have "Some (last ?xs) \<in> set (column c rs)" by (simp add: present_set)
  then obtain r where r: "r \<in> set rs" "conc r c = Some (last ?xs)"
    by (auto simp: column_def)
  then have "\<not> flt (conc r c) (Some q)" using le by (simp add: flt_Some)
  with r(1) have "length (filter (\<lambda>r. flt (conc r c) (Some q)) rs) < length rs"
    by (meson length_filter_less)
  then show ?thesis by (simp add: trim_col_def Some)
qed

lemma strict_prefix_below:
  fixes xs :: "real list"
  assumes "sorted xs" "distinct xs" "k < length xs"
  shows "filter (\<lambda>x. x < xs ! k) (take k xs) = take k xs"
proof -
  have "\<forall>x\<in>set (take k xs). x < xs ! k"
  proof
    fix x assume "x \<in> set (take k xs)"
    then obtain i where i: "i < k" "x = xs ! i"
      using assms(3) by (auto simp: in_set_conv_nth)
    have "xs ! i \<le> xs ! k" using assms i by (simp add: sorted_nth_mono)
    moreover have "xs ! i \<noteq> xs ! k" using assms i by (simp add: nth_eq_iff_index_eq)
    ultimately show "x < xs ! k" using i by simp
  qed
  then show ?thesis by simp
qed

lemma length_filter_take: "length (filter P (take k xs)) \<le> length (filter P xs)"
proof -
  have "length (filter P xs) = length (filter P (take k xs @ drop k xs))" by simp
  also have "\<dots> = length (filter P (take k xs)) + length (filter P (drop k xs))"
    by (simp only: filter_append length_append)
  finally show ?thesis by simp
qed

lemma trim_col_keeps:
  assumes nona: "None \<notin> set (column c rs)" and dist: "distinct (column c rs)"
  shows "(99 * (length rs - 1)) div 100 \<le> length (trim_col c rs)"
proof (cases "rs = []")
  case True
  then show ?thesis by simp
next
  case False
  let ?vs = "column c rs"
  let ?xs = "sort (present ?vs)"
  let ?lo = "(99 * (length ?xs - 1)) div 100"
  have vs: "map Some (present ?vs) = ?vs" using nona by (rule present_no_None)
  then have len: "length ?xs = length rs"
    by (metis length_map length_sort column_def)
  have "distinct (map Some (present ?vs))" using dist vs by simp
  then have dxs: "distinct ?xs" by (simp add: distinct_map)
  have "present ?vs \<noteq> []" using False len by auto
  then obtain q where q: "quantile99 ?vs = Some q"
    using quantile99_None[of ?vs] by (cases "quantile99 ?vs") auto
  from quantile99_bounds(1)[OF q] have lo: "?xs ! ?lo \<le> q" .
  have lolt: "?lo < length ?xs" using False len by (cases "length ?xs") auto
  have "?lo = length (filter (\<lambda>x. x < ?xs ! ?lo) (take ?lo ?xs))"
    using strict_prefix_below[of ?xs ?lo] dxs lolt by simp
  also have "\<dots> \<le> length (filter (\<lambda>x. x < ?xs ! ?lo) ?xs)"
    by (rule length_filter_take)
  also have "\<dots> \<le> length (filter (\<lambda>x. x < q) ?xs)"
  proof -
    have "filter (\<lambda>x. x < ?xs ! ?lo) ?xs = filter (\<lambda>x. x < ?xs ! ?lo) (filter (\<lambda>x. x < q) ?xs)"
      using lo by (auto intro!: filter_cong)
    then show ?thesis by (metis length_filter_le)
  qed
  also have "\<dots> = length (filter (\<lambda>x. x < q) (present ?vs))"
    by (rule length_filter_sort)
  also have "\<dots> = length (trim_col c rs)"
    by (simp add: trim_col_def q kept_count)
  finally show ?thesis using len by simp
qed

lemma length_split_below:
  fixes xs :: "real list"
  assumes "\<forall>x\<in>set xs. x \<le> a"
  shows "length xs = length (filter (\<lambda>x. x < a) xs) + length (filter (\<lambda>x. x = a) xs)"
proof -
  have "filter (\<lambda>x. \<not> x < a) xs = filter (\<lambda>x. x = a) xs"
    using assms by (auto intro!: filter_cong)
  then show ?thesis
    using sum_length_filter_compl[of "\<lambda>x. x < a" xs] by simp
qed

lemma trim_col_keeps_ties:
  assumes ne: "present (column c rs) \<noteq> []"
  defines "vs \<equiv> present (column c rs)"
  defines "lo \<equiv> (99 * (length vs - 1)) div 100"
  shows "lo + 1 \<le> length (trim_col c rs) + length (filter (\<lambda>x. x = sort vs ! lo) vs)"
proof -
  let ?xs = "sort vs"
  let ?a = "?xs ! lo"
  have n: "vs \<noteq> []" using ne by (simp add: vs_def)
  then obtain q where q: "quantile99 (column c rs) = Some q"
    using quantile99_None[of "column c rs"] by (cases "quantile99 (column c rs)") (auto simp: vs_def)
  from quantile99_bounds(1)[OF q] have aq: "?a \<le> q" by (simp add: vs_def lo_def)
  have lolt: "lo < length ?xs" using n by (cases "length vs") (auto simp: lo_def)
  have "\<forall>x\<in>set (take (lo + 1) ?xs). x \<le> ?a"
  proof
    fix x assume "x \<in> set (take (lo + 1) ?xs)"
    then obtain i where i: "i < lo + 1" "x = ?xs ! i"
      using lolt by (auto simp: in_set_conv_nth)
    then show "x \<le> ?a" using lolt by (simp add: sorted_nth_mono)
  qed
  then have "length (take (lo + 1) ?xs) =
      length (filter (\<lambda>x. x < ?a) (take (lo + 1) ?xs))
      + length (filter (\<lambda>x. x = ?a) (take (lo + 1) ?xs))"
    by (rule length_split_below)
  moreover have "length (take (lo + 1) ?xs) = lo + 1" using lolt by simp
  moreover have "length (filter (\<lambda>x. x < ?a) (take (lo + 1) ?xs)) \<le> length (filter (\<lambda>x. x < ?a) ?xs)"
    by (rule length_filter_take)
  moreover have "length (filter (\<lambda>x. x = ?a) (take (lo + 1) ?xs)) \<le> length (filter (\<lambda>x. x = ?a) ?xs)"
    by (rule length_filter_take)
  moreover have "length (filter (\<lambda>x. x < ?a) ?xs) = length (filter (\<lambda>x. x < ?a) vs)"
    by (rule length_filter_sort)
  moreover have "length (filter (\<lambda>x. x = ?a) ?xs) = length (filter (\<lambda>x. x = ?a) vs)"
    by (rule length_filter_sort)
  moreover have "length (filter (\<lambda>x. x < ?a) vs) \<le> length (filter (\<lambda>x. x < q) vs)"
  proof -
    have "filter (\<lambda>x. x < ?a) vs = filter (\<lambda>x. x < ?a) (filter (\<lambda>x. x < q) vs)"
      using aq by (auto intro!: filter_cong)
    then show ?thesis by (metis length_filter_le)
  qed
  moreover have "length (filter (\<lambda>x. x < q) vs) = length (trim_col c rs)"
    by (simp add: trim_col_def q kept_count vs_def)
  ultimately show ?thesis by linarith
qed

lemma trim_col_keeps_distinct:
  assumes "distinct (present (column c rs))"
  shows "(99 * (length (present (column c rs)) - 1)) div 100 \<le> length (trim_col c rs)"
proof (cases "present (column c rs) = []")
  case True
  then show ?thesis by simp
next
  case False
  let ?vs = "present (column c rs)"
  let ?lo = "(99 * (length ?vs - 1)) div 100"
  have lolt: "?lo < length ?vs" using False by (cases "length ?vs") auto
  then have "sort ?vs ! ?lo \<in> set (sort ?vs)" by (metis length_sort nth_mem)
  then have mem: "sort ?vs ! ?lo \<in> set ?vs" by simp
  have "length (filter (\<lambda>x. x = sort ?vs ! ?lo) ?vs) = card ({x. x = sort ?vs ! ?lo} \<inter> set ?vs)"
    using assms by (rule distinct_length_filter)
  also have "\<dots> \<le> card {sort ?vs ! ?lo}"
    by (intro card_mono) auto
  finally have "length (filter (\<lambda>x. x = sort ?vs ! ?lo) ?vs) \<le> 1" by simp
  with trim_col_keeps_ties[OF False] show ?thesis by linarith
qed

lemma trim_col_all_equal:
  assumes "\<forall>x\<in>set (present (column c rs)). \<forall>y\<in>set (present (column c rs)). x = y"
  shows "trim_col c rs = []"
proof (cases "quantile99 (column c rs)")
  case None
  then show ?thesis by (simp add: trim_col_def flt_None)
next
  case (Some q)
  let ?xs = "sort (present (column c rs))"
  from quantile99_bounds[OF Some] have le: "q \<le> last ?xs" and ne: "?xs \<noteq> []" by simp_all
  have "last ?xs \<in> set ?xs" using ne by (rule last_in_set)
  then have m: "last ?xs \<in> set (present (column c rs))" by simp
  have "\<not> flt (conc r c) (Some q)" if "r \<in> set rs" for r
  proof
    assume "flt (conc r c) (Some q)"
    then obtain x where x: "conc r c = Some x" "x < q" by (auto simp: flt_Some)
    with that have "x \<in> set (present (column c rs))" by (force simp: present_set column_def)
    with m assms have "x = last ?xs" by blast
    with x le show False by simp
  qed
  then show ?thesis by (simp add: trim_col_def Some filter_empty_conv)
qed

lemma trim_col_subset: "set (trim_col c rs) \<subseteq> set rs"
  by (auto simp: trim_col_def)

lemma trim_loop_subset: "set (trim_loop cs rs) \<subseteq> set rs"
proof (induction cs arbitrary: rs)
  case Nil
  then show ?case by simp
next
  case (Cons col cols)
  have "set (trim_loop cols (trim_col col rs)) \<subseteq> set (trim_col col rs)"
    by (rule Cons.IH)
  then show ?case using trim_col_subset[of col rs] by auto
qed

lemma trim_col_present: "r \<in> set (trim_col c rs) \<Longrightarrow> conc r c \<noteq> None"
  by (auto simp: trim_col_def flt_iff)

lemma trim_loop_present:
  "c \<in> set cs \<Longrightarrow> r \<in> set (trim_loop cs rs) \<Longrightarrow> conc r c \<noteq> None"
proof (induction cs arbitrary: rs)
  case Nil
  then show ?case by simp
next
  case (Cons col cols)
  show ?case
  proof (cases "c = col")
    case True
    have "r \<in> set (trim_col col rs)"
      using Cons.prems(2) trim_loop_subset[of cols "trim_col col rs"] by auto
    then show ?thesis using True by (simp add: trim_col_present)
  next
    case False
    then have "c \<in> set cols" using Cons.prems(1) by simp
    then show ?thesis using Cons.IH Cons.prems(2) by simp
  qed
qed

lemma trim_loop_Nil: "trim_loop cs [] = []"
  by (induction cs) (simp_all add: trim_col_def)

lemma trim_loop_all_missing:
  "c \<in> set cs \<Longrightarrow> \<forall>r\<in>set rs. conc r c = None \<Longrightarrow> trim_loop cs rs = []"
proof (induction cs arbitrary: rs)
  case Nil
  then show ?case by simp
next
  case (Cons col cols)
  show ?case
  proof (cases "c = col")
    case True
    have "trim_col col rs = []"
      using Cons.prems(2) True by (auto simp: trim_col_def flt_iff filter_empty_conv)
    then show ?thesis by (simp add: trim_loop_Nil)
  next
    case False
    then have "c \<in> set cols" using Cons.prems(1) by simp
    moreover have "\<forall>r\<in>set (trim_col col rs). conc r c = None"
      using Cons.prems(2) trim_col_subset[of col rs] by auto
    ultimately show ?thesis using Cons.IH by simp
  qed
qed

text \<open>
  Claim C1, as the code has it. The loop takes the pollutant columns in the order of the
  list \<open>pollutants\<close>, each step working on the dataset the earlier steps left. A step keeps
  exactly the rows whose value in the column is strictly below the column's 99th-percentile
  threshold of the current dataset; so it removes the rows whose value is missing or is at
  least the threshold (equal to it included). Kept rows are kept whole and in order.
\<close>

theorem trim_loop_sequential:
  "trim_loop pollutants rs =
     trim_col ''Xylene'' (trim_col ''Toluene'' (trim_col ''Benzene'' (trim_col ''O3''
       (trim_col ''CO'' (trim_col ''SO2'' (trim_col ''NH3'' (trim_col ''NO2''
         (trim_col ''PM10'' (trim_col ''PM2.5'' rs)))))))))
   \<and> set (trim_col c rs) =
       {r \<in> set rs. \<exists>v q. conc r c = Some v \<and> quantile99 (column c rs) = Some q \<and> v < q}
   \<and> set rs - set (trim_col c rs) =
       {r \<in> set rs. conc r c = None \<or> quantile99 (column c rs) = None
          \<or> (\<exists>v q. conc r c = Some v \<and> quantile99 (column c rs) = Some q \<and> q \<le> v)}
   \<and> trim_col c rs = filter (\<lambda>r. r \<in> set (trim_col c rs)) rs"
proof -
  have "trim_loop pollutants rs =
     trim_col ''Xylene'' (trim_col ''Toluene'' (trim_col ''Benzene'' (trim_col ''O3''
       (trim_col ''CO'' (trim_col ''SO2'' (trim_col ''NH3'' (trim_col ''NO2''
         (trim_col ''PM10'' (trim_col ''PM2.5'' rs)))))))))"
    by (simp add: pollutants_def)
  moreover have "set (trim_col c rs) =
       {r \<in> set rs. \<exists>v q. conc r c = Some v \<and> quantile99 (column c rs) = Some q \<and> v < q}"
    by (auto simp: trim_col_def flt_iff)
  moreover have "set rs - set (trim_col c rs) =
       {r \<in> set rs. conc r c = None \<or> quantile99 (column c rs) = None
          \<or> (\<exists>v q. conc r c = Some v \<and> quantile99 (column c rs) = Some q \<and> q \<le> v)}"
  proof -
    have "\<not> flt v q \<longleftrightarrow> v = None \<or> q = None \<or> (\<exists>x y. v = Some x \<and> q = Some y \<and> y \<le> x)"
      for v q :: float
      by (cases v; cases q) (simp_all add: flt_def not_less)
    then show ?thesis by (auto simp: trim_col_def)
  qed
  moreover have "trim_col c rs = filter (\<lambda>r. r \<in> set (trim_col c rs)) rs"
    by (auto simp: trim_col_def intro: filter_cong)
  ultimately show ?thesis by blast
qed

text \<open>
  Claim C1 as stated fails: on a dataset of one row whose PM2.5 value is 5 the threshold is
  5, the value does not exceed it, and the row is removed all the same.
\<close>

theorem trim_col_removes_threshold_row:
  "quantile99 (column ''PM2.5'' one_row) = Some 5
   \<and> trim_col ''PM2.5'' one_row = []
   \<and> trim_col_exceeds ''PM2.5'' one_row = one_row"
  by (simp add: one_row_def mk_row_def trim_col_def trim_col_exceeds_def column_def
      quantile99_def flt_def)

text \<open>
  Claim C3, as the code has it. A trimming step removes at least one row of a non-empty
  dataset, whatever its size. Of the \<open>n\<close> values present in the column, let \<open>k\<close> be the number
  equal to the value at position \<open>\<lfloor>0.99 * (n - 1)\<rfloor>\<close> of the sorted values: the step keeps at
  least \<open>\<lfloor>0.99 * (n - 1)\<rfloor> + 1 - k\<close> rows. So when the values present are pairwise distinct it
  keeps at least \<open>\<lfloor>0.99 * (n - 1)\<rfloor>\<close> rows (of all the rows, when no value is missing); with
  equal values there is no such bound, and when the values present are all equal the step
  removes every row.
\<close>

theorem trim_col_bound:
  "(rs \<noteq> [] \<longrightarrow> length (trim_col c rs) < length rs)
   \<and> (None \<notin> set (column c rs) \<and> distinct (column c rs) \<longrightarrow>
        (99 * (length rs - 1)) div 100 \<le> length (trim_col c rs))
   \<and> (let vs = present (column c rs); lo = (99 * (length vs - 1)) div 100 in
        (vs \<noteq> [] \<longrightarrow>
           lo + 1 \<le> length (trim_col c rs) + length (filter (\<lambda>x. x = sort vs ! lo) vs))
        \<and> (distinct vs \<longrightarrow> lo \<le> length (trim_col c rs))
        \<and> ((\<forall>x\<in>set vs. \<forall>y\<in>set vs. x = y) \<longrightarrow> trim_col c rs = []))"
  unfolding Let_def
  using trim_col_shrinks[of rs c] trim_col_keeps[of c rs] trim_col_keeps_ties[of c rs]
    trim_col_keeps_distinct[of c rs] trim_col_all_equal[of c rs]
  by blast

theorem trim_col_bound_witness:
  "three_rows \<noteq> [] \<and> None \<notin> set (column ''PM2.5'' three_rows)
   \<and> distinct (column ''PM2.5'' three_rows)
   \<and> length (trim_col ''PM2.5'' three_rows) < length three_rows
   \<and> (99 * (length three_rows - 1)) div 100 \<le> length (trim_col ''PM2.5'' three_rows)
   \<and> present (column ''PM2.5'' tied_rows) = [5, 5, 5, 1]
   \<and> (99 * (length [5, 5, 5, 1 :: real] - 1)) div 100 + 1
        \<le> length (trim_col ''PM2.5'' tied_rows)
          + length (filter (\<lambda>x. x = sort [5, 5, 5, 1] ! 2) [5, 5, 5, 1 :: real])
   \<and> set (present (column ''PM2.5'' (fillna_mean sparse_rows))) = {7}
   \<and> trim_col ''PM2.5'' (fillna_mean sparse_rows) = []"
proof -
  have h: "three_rows \<noteq> []" "None \<notin> set (column ''PM2.5'' three_rows)"
    "distinct (column ''PM2.5'' three_rows)"
    by (simp_all add: three_rows_def mk_row_def column_def)
  have t: "present (column ''PM2.5'' tied_rows) = [5, 5, 5, 1]"
    by (simp add: tied_rows_def mk_row_def column_def)
  have s: "set (present (column ''PM2.5'' (fillna_mean sparse_rows))) = {7}"
    by (simp add: sparse_rows_def mk_row_def fillna_mean_def column_def mean_def fillna_def
        pollutants_def)
  from trim_col_bound[of three_rows "''PM2.5''"] h
  have a: "length (trim_col ''PM2.5'' three_rows) < length three_rows"
    "(99 * (length three_rows - 1)) div 100 \<le> length (trim_col ''PM2.5'' three_rows)"
    by blast+
  from trim_col_bound[of tied_rows "''PM2.5''"]
  have b: "(99 * (length [5, 5, 5, 1 :: real] - 1)) div 100 + 1
        \<le> length (trim_col ''PM2.5'' tied_rows)
          + length (filter (\<lambda>x. x = sort [5, 5, 5, 1] ! 2) [5, 5, 5, 1 :: real])"
    unfolding Let_def t by simp
  from trim_col_bound[of "fillna_mean sparse_rows" "''PM2.5''"]
  have c: "trim_col ''PM2.5'' (fillna_mean sparse_rows) = []"
    unfolding Let_def s by simp
  from h a t b s c show ?thesis by blast
qed

text \<open>
  Claim C3 as stated fails. Of three rows with the distinct PM2.5 values 1, 2 and 3 the
  step removes one, a third of the dataset and not at most 1 percent of it. With the values
  5, 5, 5 and 1 it keeps one row of four, fewer than \<open>\<lfloor>0.99 * 3\<rfloor> = 2\<close>. A column with one
  reading 7 and three missing values holds four times 7 after the imputation of line 54,
  and the step then removes all four rows.
\<close>

theorem trim_col_removes_tied_rows:
  "length three_rows = 3 \<and> length (trim_col ''PM2.5'' three_rows) = 2
   \<and> \<not> 100 * (length three_rows - length (trim_col ''PM2.5'' three_rows)) \<le> length three_rows
   \<and> column ''PM2.5'' tied_rows = [Some 5, Some 5, Some 5, Some 1]
   \<and> length tied_rows = 4 \<and> length (trim_col ''PM2.5'' tied_rows) = 1
   \<and> \<not> (99 * (length tied_rows - 1)) div 100 \<le> length (trim_col ''PM2.5'' tied_rows)
   \<and> column ''PM2.5'' sparse_rows = [Some 7, None, None, None]
   \<and> column ''PM2.5'' (fillna_mean sparse_rows) = [Some 7, Some 7, Some 7, Some 7]
   \<and> trim_col ''PM2.5'' (fillna_mean sparse_rows) = []
   \<and> cleaner sparse_rows = []"
proof -
  have a: "length three_rows = 3 \<and> length (trim_col ''PM2.5'' three_rows) = 2
   \<and> \<not> 100 * (length three_rows - length (trim_col ''PM2.5'' three_rows)) \<le> length three_rows"
    by (simp add: three_rows_def mk_row_def trim_col_def column_def quantile99_def flt_def)
  have b: "column ''PM2.5'' tied_rows = [Some 5, Some 5, Some 5, Some 1]
   \<and> length tied_rows = 4 \<and> length (trim_col ''PM2.5'' tied_rows) = 1
   \<and> \<not> (99 * (length tied_rows - 1)) div 100 \<le> length (trim_col ''PM2.5'' tied_rows)"
    by (simp add: tied_rows_def mk_row_def trim_col_def column_def quantile99_def flt_def)
  have c: "column ''PM2.5'' sparse_rows = [Some 7, None, None, None]"
    by (simp add: sparse_rows_def mk_row_def column_def)
  have d: "column ''PM2.5'' (fillna_mean sparse_rows) = [Some 7, Some 7, Some 7, Some 7]"
    by (simp add: sparse_rows_def mk_row_def fillna_mean_def column_def mean_def fillna_def
        pollutants_def)
  have e: "trim_col ''PM2.5'' (fillna_mean sparse_rows) = []"
    by (simp add: trim_col_def d quantile99_def flt_def)
      (simp add: sparse_rows_def mk_row_def fillna_mean_def column_def mean_def fillna_def
        pollutants_def)
  have "cleaner sparse_rows = []"
    by (simp add: cleaner_def pollutants_def e trim_loop_Nil)
  with a b c d e show ?thesis by blast
qed

subsection \<open>Imputation\<close>

lemma column_fillna_mean:
  "c \<in> set pollutants \<Longrightarrow>
   column c (fillna_mean rs) = map (\<lambda>v. fillna v (mean (column c rs))) (column c rs)"
  by (simp add: fillna_mean_def column_def comp_def)

lemma present_Nil_iff: "present vs = [] \<longleftrightarrow> (\<forall>v\<in>set vs. v = None)"
  by (induction vs rule: present.induct) auto

text \<open>
  Claim C4, as the code has it. After the Cleaner stage (imputation, then trimming) no
  value of a pollutant column is missing. Imputation replaces a missing entry by the mean
  of the column's present values over the whole dataset; when the column has at least one
  present value that leaves no missing entry. A column with no present value has no mean:
  imputation leaves it as it is, and trimming then removes every row.
\<close>

theorem cleaner_imputation:
  assumes "c \<in> set pollutants"
  shows "(\<forall>r\<in>set (cleaner rs). conc r c \<noteq> None)
       \<and> column c (fillna_mean rs) = map (\<lambda>v. fillna v (mean (column c rs))) (column c rs)
       \<and> (present (column c rs) \<noteq> [] \<longrightarrow>
            mean (column c rs) =
              Some (sum_list (present (column c rs)) / real (length (present (column c rs))))
            \<and> None \<notin> set (column c (fillna_mean rs)))
       \<and> (present (column c rs) = [] \<longrightarrow>
            column c (fillna_mean rs) = column c rs \<and> cleaner rs = [])"
proof -
  have a: "\<forall>r\<in>set (cleaner rs). conc r c \<noteq> None"
    using assms trim_loop_present[of c pollutants] by (auto simp: cleaner_def)
  have b: "column c (fillna_mean rs) = map (\<lambda>v. fillna v (mean (column c rs))) (column c rs)"
    using assms by (rule column_fillna_mean)
  have c1: "mean (column c rs) =
      Some (sum_list (present (column c rs)) / real (length (present (column c rs))))"
    if "present (column c rs) \<noteq> []"
    using that by (simp add: mean_def Let_def)
  have c2: "None \<notin> set (column c (fillna_mean rs))" if "present (column c rs) \<noteq> []"
    using c1[OF that] by (auto simp: b fillna_def split: option.splits)
  have d1: "column c (fillna_mean rs) = column c rs" if "present (column c rs) = []"
  proof -
    have "\<forall>v\<in>set (column c rs). v = None" using that by (simp add: present_Nil_iff)
    then have "map (\<lambda>v. fillna v (mean (column c rs))) (column c rs) = map (\<lambda>v. v) (column c rs)"
      by (intro map_cong) (auto simp: fillna_def mean_def that)
    then show ?thesis by (simp add: b)
  qed
  have d2: "cleaner rs = []" if "present (column c rs) = []"
  proof -
    have "\<forall>v\<in>set (column c (fillna_mean rs)). v = None"
      using that by (simp add: d1 present_Nil_iff)
    then have "\<forall>r\<in>set (fillna_mean rs). conc r c = None" by (simp add: column_def)
    with assms show ?thesis unfolding cleaner_def by (rule trim_loop_all_missing)
  qed
  from a b c1 c2 d1 d2 show ?thesis by blast
qed

theorem cleaner_imputation_witness:
  "''PM2.5'' \<in> set pollutants
   \<and> present (column ''PM2.5'' twelve_rows) \<noteq> []
   \<and> column ''PM2.5'' (cleaner twelve_rows) = [Some 1, Some 2]
   \<and> None \<notin> set (column ''PM2.5'' (cleaner twelve_rows))
   \<and> None \<notin> set (column ''PM2.5'' (fillna_mean twelve_rows))
   \<and> present (column ''PM2.5'' all_missing) = []
   \<and> cleaner all_missing = []"
proof -
  have p: "''PM2.5'' \<in> set pollutants" by (simp add: pollutants_def)
  have ne: "present (column ''PM2.5'' twelve_rows) \<noteq> []"
    by (simp add: twelve_rows_def mk_row_def column_def)
  have em: "present (column ''PM2.5'' all_missing) = []"
    by (simp add: all_missing_def mk_row_def column_def)
  have ev: "column ''PM2.5'' (cleaner twelve_rows) = [Some 1, Some 2]"
    by (simp add: twelve_rows_def mk_row_def cleaner_def fillna_mean_def column_def mean_def
        fillna_def pollutants_def trim_col_def quantile99_def flt_def)
  from cleaner_imputation[OF p, of twelve_rows] ne
  have t: "None \<notin> set (column ''PM2.5'' (fillna_mean twelve_rows))"
    and u: "\<forall>r\<in>set (cleaner twelve_rows). conc r ''PM2.5'' \<noteq> None" by blast+
  from u have v: "None \<notin> set (column ''PM2.5'' (cleaner twelve_rows))"
    by (auto simp: column_def)
  from cleaner_imputation[OF p, of all_missing] em have "cleaner all_missing = []" by blast
  with p ne em ev t v show ?thesis by blast
qed

text \<open>
  Claim C4 as stated fails for a column that holds only missing values: the entry is not
  replaced by a mean (there is none), it stays missing after imputation, and the row is
  gone after trimming.
\<close>

theorem fillna_mean_all_missing:
  "column ''PM2.5'' (fillna_mean all_missing) = [None] \<and> cleaner all_missing = []"
  by (simp add: all_missing_def mk_row_def cleaner_def fillna_mean_def column_def mean_def
      fillna_def pollutants_def trim_col_def quantile99_def flt_def)

subsection \<open>Text normalization\<close>

lemma length_letters: "length lowers = length uppers"
  by (simp add: lowers_def uppers_def)

lemma letters_disjoint: "c \<in> set lowers \<Longrightarrow> c \<notin> set uppers"
  by (auto simp: lowers_def uppers_def)

lemma letters_not_space: "c \<in> set lowers \<or> c \<in> set uppers \<Longrightarrow> \<not> isspace c"
  by (auto simp: lowers_def uppers_def isspace_def)

lemma to_upper_cases:
  "(c \<in> set lowers \<and> to_upper c \<in> set uppers) \<or> (c \<notin> set lowers \<and> to_upper c = c)"
proof (cases "map_of (zip lowers uppers) c")
  case None
  then have "c \<notin> set lowers" using length_letters by (simp add: map_of_zip_is_None)
  with None show ?thesis by (simp add: to_upper_def)
next
  case (Some u)
  then have "(c, u) \<in> set (zip lowers uppers)" by (rule map_of_SomeD)
  then have "c \<in> set lowers" "u \<in> set uppers"
    by (auto dest: set_zip_leftD set_zip_rightD)
  with Some show ?thesis by (simp add: to_upper_def)
qed

lemma to_lower_cases:
  "(c \<in> set uppers \<and> to_lower c \<in> set lowers) \<or> (c \<notin> set uppers \<and> to_lower c = c)"
proof (cases "map_of (zip uppers lowers) c")
  case None
  then have "c \<notin> set uppers" using length_letters by (simp add: map_of_zip_is_None)
  with None show ?thesis by (simp add: to_lower_def)
next
  case (Some l)
  then have "(c, l) \<in> set (zip uppers lowers)" by (rule map_of_SomeD)
  then have "c \<in> set uppers" "l \<in> set lowers"
    by (auto dest: set_zip_leftD set_zip_rightD)
  with Some show ?thesis by (simp add: to_lower_def)
qed

lemma to_upper_props:
  "isupper (to_upper c) = cased c" "islower (to_upper c) = False"
  "cased (to_upper c) = cased c" "isspace (to_upper c) = isspace c"
  using to_upper_cases[of c] letters_disjoint[of c] letters_disjoint[of "to_upper c"]
    letters_not_space[of c] letters_not_space[of "to_upper c"]
  by (auto simp: isupper_def islower_def cased_def)

lemma to_lower_props:
  "islower (to_lower c) = cased c" "isupper (to_lower c) = False"
  "cased (to_lower c) = cased c" "isspace (to_lower c) = isspace c"
  using to_lower_cases[of c] letters_disjoint[of c] letters_disjoint[of "to_lower c"]
    letters_not_space[of c] letters_not_space[of "to_lower c"]
  by (auto simp: isupper_def islower_def cased_def)

lemma titlecased_title_from: "titlecased_from p (title_from p s)"
  by (induction s arbitrary: p) (simp_all add: to_upper_props to_lower_props)

lemma isspace_title_from: "map isspace (title_from p s) = map isspace s"
  by (induction s arbitrary: p) (simp_all add: to_upper_props to_lower_props)

lemma trimmed_map_isspace:
  assumes "map isspace a = map isspace b"
  shows "trimmed a = trimmed b"
proof (cases "b = []")
  case True
  with assms show ?thesis by (simp add: trimmed_def)
next
  case False
  with assms have a: "a \<noteq> []" by auto
  have "isspace (hd a) = hd (map isspace a)" "isspace (last a) = last (map isspace a)"
    using a by (simp_all add: hd_map last_map)
  moreover have "isspace (hd b) = hd (map isspace b)" "isspace (last b) = last (map isspace b)"
    using False by (simp_all add: hd_map last_map)
  ultimately show ?thesis using assms a False by (simp add: trimmed_def)
qed

lemma last_dropWhile_nonempty: "dropWhile P xs \<noteq> [] \<Longrightarrow> last (dropWhile P xs) = last xs"
  by (induction xs) (auto split: if_splits)

lemma trimmed_strip: "trimmed (strip s)"
proof -
  let ?t = "dropWhile isspace s"
  let ?u = "dropWhile isspace (rev ?t)"
  show ?thesis
  proof (cases "?u = []")
    case True
    then show ?thesis by (simp add: strip_def trimmed_def)
  next
    case False
    have t: "?t \<noteq> []"
    proof
      assume a: "?t = []"
      have "?u = []" unfolding a by simp
      with False show False by blast
    qed
    have "\<not> isspace (hd ?u)" using False by (rule hd_dropWhile)
    moreover have "last ?u = hd ?t"
      using False t by (simp add: last_dropWhile_nonempty last_rev)
    moreover have "\<not> isspace (hd ?t)" using t by (rule hd_dropWhile)
    ultimately show ?thesis using False by (simp add: strip_def trimmed_def hd_rev last_rev)
  qed
qed

lemma normalized_text: "trimmed (title (strip s)) \<and> titlecased (title (strip s))"
proof -
  have "trimmed (title (strip s)) = trimmed (strip s)"
    unfolding title_def by (rule trimmed_map_isspace) (rule isspace_title_from)
  then show ?thesis
    by (simp add: trimmed_strip title_def titlecased_def titlecased_title_from)
qed

text \<open>
  Claim C8, as the code has it. Normalization touches the city field only. In a frame that
  has rows, columns and a \<^verbatim>\<open>City\<close> column, the city of every record comes out without leading
  or trailing whitespace and title-cased. The station identifier is left as it was read, and
  a frame without rows or without a \<^verbatim>\<open>City\<close> column is left unchanged.
\<close>

theorem normalize_City_text:
  "(\<not> frame_empty df \<and> has_column df ''City'' \<longrightarrow>
      (\<forall>r\<in>set (rows (normalize_City df)). \<exists>s. City r = Some s \<and> trimmed s \<and> titlecased s))
   \<and> map Station (rows (normalize_City df)) = map Station (rows df)
   \<and> (frame_empty df \<or> \<not> has_column df ''City'' \<longrightarrow> normalize_City df = df)
   \<and> columns (normalize_City df) = columns df
   \<and> length (rows (normalize_City df)) = length (rows df)"
  using normalized_text by (auto simp: normalize_City_def)

theorem normalize_City_text_witness:
  "\<not> frame_empty station_file \<and> has_column station_file ''City''
   \<and> map City (rows (normalize_City station_file)) = [Some ''New  Delhi'']
   \<and> trimmed ''New  Delhi'' \<and> titlecased ''New  Delhi''
   \<and> normalize_City DataFrame = DataFrame"
proof -
  have h: "\<not> frame_empty station_file \<and> has_column station_file ''City''"
    by (simp add: station_file_def frame_empty_def has_column_def)
  have e: "map City (rows (normalize_City station_file)) = [Some ''New  Delhi'']"
    by (simp add: normalize_City_def station_file_def frame_empty_def has_column_def mk_row_def
        astype_str_def strip_def title_def isspace_def cased_def islower_def isupper_def
        to_upper_def to_lower_def lowers_def uppers_def)
  from normalize_City_text[of station_file] h
  have "\<forall>r\<in>set (rows (normalize_City station_file)). \<exists>s. City r = Some s \<and> trimmed s \<and> titlecased s"
    by blast
  then have "\<forall>c\<in>set (map City (rows (normalize_City station_file))).
      \<exists>s. c = Some s \<and> trimmed s \<and> titlecased s"
    by simp
  then have t: "trimmed ''New  Delhi'' \<and> titlecased ''New  Delhi''"
    unfolding e by simp
  have "frame_empty DataFrame" by (simp add: frame_empty_def DataFrame_def)
  with normalize_City_text[of DataFrame] have "normalize_City DataFrame = DataFrame" by blast
  with h e t show ?thesis by blast
qed

text \<open>
  Claim C8 as stated fails for the station identifier: it keeps its surrounding blanks and
  its lower-case initials.
\<close>

theorem normalize_City_leaves_Station:
  "map Station (rows (normalize_City station_file)) = [Some '' anand vihar '']
   \<and> \<not> trimmed '' anand vihar '' \<and> \<not> titlecased '' anand vihar ''"
  by (simp add: normalize_City_def station_file_def frame_empty_def has_column_def mk_row_def
      trimmed_def titlecased_def isspace_def cased_def islower_def isupper_def lowers_def
      uppers_def)

subsection \<open>Timestamps of the hourly dataset\<close>

lemma map_of_set_column: "map_of (set_column c t cols) c = Some t"
proof (cases "c \<in> set (map fst cols)")
  case True
  then have "map_of (map (\<lambda>(n, d). if n = c then (n, t) else (n, d)) cols) c = Some t"
    by (induction cols) auto
  with True show ?thesis by (simp add: set_column_def)
next
  case False
  then have "map_of cols c = None" by (simp add: map_of_eq_None_iff)
  with False show ?thesis by (simp add: set_column_def map_add_def)
qed

lemma present_keys_filter:
  "present_keys (map key (filter (\<lambda>r. key r \<noteq> None) rs)) = present_keys (map key rs)"
proof (induction rs)
  case Nil
  then show ?case by simp
next
  case (Cons r rs)
  then show ?case by (cases "key r") simp_all
qed

lemma groupby_mean_skips_missing_keys:
  "groupby_mean key c (filter (\<lambda>r. key r \<noteq> None) rs) = groupby_mean key c rs"
proof -
  have "filter (\<lambda>r. key r = Some k) (filter (\<lambda>r. key r \<noteq> None) rs) =
        filter (\<lambda>r. key r = Some k) rs" for k
    by (induction rs) (auto simp del: not_None_eq)
  then show ?thesis by (simp add: groupby_mean_def present_keys_filter del: not_None_eq)
qed

lemma hourly_avg_skips_missing_hours:
  "hourly_avg (df\<lparr>rows := filter (\<lambda>r. Hour r \<noteq> None) (rows df)\<rparr>) = hourly_avg df"
proof -
  have "filter (\<lambda>r. City r = Some ''Delhi'') (filter (\<lambda>r. Hour r \<noteq> None) (rows df)) =
        filter (\<lambda>r. Hour r \<noteq> None) (filter (\<lambda>r. City r = Some ''Delhi'') (rows df))"
    by (simp add: conj_commute del: not_None_eq)
  then show ?thesis
    by (simp add: hourly_avg_def has_column_def groupby_mean_skips_missing_keys
        del: not_None_eq filter_filter)
qed

text \<open>
  Claim C10. On an hourly frame that has a \<^verbatim>\<open>Datetime\<close> column, lines 50-51 succeed and keep
  every row, changing only its timestamp and hour cells. A row whose timestamp text does not
  parse gets the timestamp NaT and a missing hour. The per-hour mean is the same with and
  without the rows whose hour is missing: they are in no hour group.
\<close>

theorem hourly_prep_keeps_rows:
  assumes "has_column df ''Datetime''"
  shows "\<exists>df'. hourly_prep parse df = Inr df'
     \<and> map (\<lambda>r. (City r, Station r, conc r)) (rows df') =
         map (\<lambda>r. (City r, Station r, conc r)) (rows df)
     \<and> map Datetime (rows df') = map (\<lambda>r. to_datetime parse (Datetime r)) (rows df)
     \<and> map Hour (rows df') = map (\<lambda>r. hour_of (to_datetime parse (Datetime r))) (rows df)
     \<and> (\<forall>s. parse s = None \<longrightarrow>
           to_datetime parse (Text s) = NaT \<and> hour_of (to_datetime parse (Text s)) = None)
     \<and> hourly_avg (df'\<lparr>rows := filter (\<lambda>r. Hour r \<noteq> None) (rows df')\<rparr>) = hourly_avg df'"
proof -
  let ?df1 = "assign_Datetime parse df"
  let ?df' = "?df1\<lparr>columns := set_column ''Hour'' Int64 (columns ?df1),
                   rows := derive_Hour (rows ?df1)\<rparr>"
  have "dt_accessor ?df1 = Inr ()"
    using assms by (simp add: dt_accessor_def assign_Datetime_def map_of_set_column)
  then have 1: "hourly_prep parse df = Inr ?df'"
    by (simp add: hourly_prep_def Let_def)
  have 2: "map (\<lambda>r. (City r, Station r, conc r)) (rows ?df') =
      map (\<lambda>r. (City r, Station r, conc r)) (rows df)"
    using assms by (simp add: assign_Datetime_def derive_Hour_def comp_def)
  have 3: "map Datetime (rows ?df') = map (\<lambda>r. to_datetime parse (Datetime r)) (rows df)"
    using assms by (simp add: assign_Datetime_def derive_Hour_def comp_def)
  have 4: "map Hour (rows ?df') = map (\<lambda>r. hour_of (to_datetime parse (Datetime r))) (rows df)"
    using assms by (simp add: assign_Datetime_def derive_Hour_def comp_def)
  have 5: "\<forall>s. parse s = None \<longrightarrow>
      to_datetime parse (Text s) = NaT \<and> hour_of (to_datetime parse (Text s)) = None"
    by (simp add: to_datetime_def hour_of_def)
  have 6: "hourly_avg (?df'\<lparr>rows := filter (\<lambda>r. Hour r \<noteq> None) (rows ?df')\<rparr>) = hourly_avg ?df'"
    by (rule hourly_avg_skips_missing_hours)
  from 1 2 3 4 5 6 show ?thesis by blast
qed

lemma hourly_file_eval:
  "hourly_prep iso_parse hourly_file = Inr df \<Longrightarrow>
   map Hour (rows df) = [Some 7, None, Some 7] \<and> length (rows df) = 3
   \<and> hourly_avg df = Inr [(7, Some 20)]"
  by (auto simp: hourly_prep_def hourly_file_def assign_Datetime_def has_column_def
      set_column_def dt_accessor_def derive_Hour_def to_datetime_def iso_parse_def hour_of_def
      mk_row_def hourly_avg_def groupby_mean_def mean_def column_def Let_def)

theorem hourly_prep_keeps_rows_witness:
  "has_column hourly_file ''Datetime'' \<and> iso_parse ''not a date'' = None
   \<and> (\<exists>df'. hourly_prep iso_parse hourly_file = Inr df'
        \<and> length (rows df') = 3
        \<and> map Hour (rows df') = [Some 7, None, Some 7]
        \<and> hourly_avg df' = Inr [(7, Some 20)]
        \<and> hourly_avg (df'\<lparr>rows := filter (\<lambda>r. Hour r \<noteq> None) (rows df')\<rparr>) = Inr [(7, Some 20)])"
proof -
  have h: "has_column hourly_file ''Datetime''"
    by (simp add: hourly_file_def has_column_def)
  have p: "iso_parse ''not a date'' = None" by (simp add: iso_parse_def)
  from hourly_prep_keeps_rows[OF h, of iso_parse] obtain df' where
    a: "hourly_prep iso_parse hourly_file = Inr df'" and
    b: "hourly_avg (df'\<lparr>rows := filter (\<lambda>r. Hour r \<noteq> None) (rows df')\<rparr>) = hourly_avg df'"
    by blast
  from hourly_file_eval[OF a] b h p a show ?thesis by auto
qed

subsection \<open>Absent timestamp column, absent sources\<close>

lemma daily_prep_drops_unparsed:
  assumes "has_column df ''Datetime''"
  shows "\<exists>df'. daily_prep parse df = Inr df'
     \<and> map Datetime (rows df') =
         filter (\<lambda>d. d \<noteq> NaT) (map (\<lambda>r. to_datetime parse (Datetime r)) (rows df))"
proof -
  let ?df2 = "dropna_Datetime (assign_Datetime parse df)"
  have "dt_accessor ?df2 = Inr ()"
    using assms
    by (simp add: dt_accessor_def dropna_Datetime_def assign_Datetime_def map_of_set_column)
  then have "\<exists>df'. daily_prep parse df = Inr df' \<and> map Datetime (rows df') = map Datetime (rows ?df2)"
    by (simp add: daily_prep_def daily_features_def comp_def)
  moreover have "map Datetime (rows ?df2) =
      filter (\<lambda>d. d \<noteq> NaT) (map (\<lambda>r. to_datetime parse (Datetime r)) (rows df))"
    using assms by (simp add: dropna_Datetime_def assign_Datetime_def filter_map comp_def)
  ultimately show ?thesis by simp
qed

text \<open>
  Claim C9 at a daily source without a \<^verbatim>\<open>Datetime\<close> column. Lines 40-41 do drop every row
  without an error, but the column they leave is not datetime-like and line 42 raises on its
  \<^verbatim>\<open>.dt\<close> accessor: the run is aborted. (A run that got past line 42 with no row left would
  stop at line 88, where the earliest timestamp is NaT.)
\<close>

theorem daily_prep_without_Datetime:
  "\<not> has_column daily_no_Datetime ''Datetime''
   \<and> rows (dropna_Datetime (assign_Datetime iso_parse daily_no_Datetime)) = []
   \<and> daily_prep iso_parse daily_no_Datetime =
       Inl (AttributeError ''Can only use .dt accessor with datetimelike values'')
   \<and> run iso_parse (all_files(''city_day.csv'' := Some daily_no_Datetime)) =
       Inl (AttributeError ''Can only use .dt accessor with datetimelike values'')
   \<and> date_range (dropna_Datetime (assign_Datetime iso_parse daily_no_Datetime)) =
       Inl (ValueError ''NaTType does not support strftime'')"
  by (simp add: daily_no_Datetime_def has_column_def pollutants_def assign_Datetime_def
      dropna_Datetime_def set_column_def daily_prep_def daily_features_def dt_accessor_def
      date_range_def year_of_def mk_row_def run_def safe_read_def bind_def all_files_def
      normalize_City_def frame_empty_def Let_def)

text \<open>
  Claim C5 at a run where only the daily source exists. Each missing source is reported and
  read as the empty frame, and the station section is left out; but lines 50-51 then give the
  empty hourly frame a \<^verbatim>\<open>Datetime\<close> column that is not datetime-like and raise on its
  \<^verbatim>\<open>.dt\<close> accessor, so the run is aborted. (Past line 51, line 147 would raise on the
  missing \<^verbatim>\<open>City\<close> column of the hourly frame.)
\<close>

theorem run_daily_only_aborts:
  "safe_read daily_only ''city_hour.csv'' = (DataFrame, [''File not found: city_hour.csv''])
   \<and> safe_read daily_only ''station_day.csv'' = (DataFrame, [''File not found: station_day.csv''])
   \<and> stations_section (normalize_City DataFrame) = Inr False
   \<and> hourly_prep iso_parse (normalize_City DataFrame) =
       Inl (AttributeError ''Can only use .dt accessor with datetimelike values'')
   \<and> hourly_avg (assign_Datetime iso_parse (normalize_City DataFrame)) = Inl (KeyError ''City'')
   \<and> run iso_parse daily_only =
       Inl (AttributeError ''Can only use .dt accessor with datetimelike values'')"
proof -
  have r: "safe_read daily_only ''city_day.csv'' = (daily_twelve, [])"
    "safe_read daily_only ''city_hour.csv'' = (DataFrame, [''File not found: city_hour.csv''])"
    "safe_read daily_only ''station_day.csv'' = (DataFrame, [''File not found: station_day.csv''])"
    by (simp_all add: safe_read_def daily_only_def)
  have s: "stations_section (normalize_City DataFrame) = Inr False"
    by (simp add: stations_section_def frame_empty_def normalize_City_def DataFrame_def)
  have h: "hourly_prep iso_parse (normalize_City DataFrame) =
      Inl (AttributeError ''Can only use .dt accessor with datetimelike values'')"
    by (simp add: hourly_prep_def assign_Datetime_def has_column_def set_column_def
        dt_accessor_def normalize_City_def frame_empty_def DataFrame_def Let_def)
  have a: "hourly_avg (assign_Datetime iso_parse (normalize_City DataFrame)) = Inl (KeyError ''City'')"
    by (simp add: hourly_avg_def assign_Datetime_def has_column_def set_column_def
        normalize_City_def frame_empty_def DataFrame_def)
  have "has_column (normalize_City daily_twelve) ''Datetime''"
    by (simp add: normalize_City_def daily_twelve_def daily_columns_def has_column_def)
  then obtain d where d: "daily_prep iso_parse (normalize_City daily_twelve) = Inr d"
    using daily_prep_drops_unparsed by blast
  have "run iso_parse daily_only =
      Inl (AttributeError ''Can only use .dt accessor with datetimelike values'')"
    by (simp add: run_def r d h bind_def)
  with r s h a show ?thesis by simp
qed

end
